theory Spec2Isabelle
  imports Complex_Main
begin

section \<open>The income ticker: accrual calculator and persisted timer state\<close>

text \<open>
  The development follows \<^verbatim>\<open>app/components/RichPerson.tsx\<close>: the comparison card
  \<^verbatim>\<open>RichPerson\<close> and, after it, the route module with the hooks \<^verbatim>\<open>useLocalStorageState\<close>,
  \<^verbatim>\<open>useCurrentIncome\<close>, \<^verbatim>\<open>useIncomeTracker\<close>, \<^verbatim>\<open>useFormatCurrency\<close>, the loader
  \<^verbatim>\<open>clientLoader\<close> and the page \<^verbatim>\<open>Home\<close>.
  A TypeScript \<^verbatim>\<open>number\<close> is modelled by a real number: the finite doubles with exact
  arithmetic. Rounding, \<^verbatim>\<open>NaN\<close> and the infinities are not part of the model of the
  calculator and of the timer state; neither \<^verbatim>\<open>Date.now()\<close> nor the number input
  produces them.
\<close>

type_synonym number = real

subsection \<open>Accrual calculator (\<^verbatim>\<open>useCurrentIncome\<close>)\<close>

text \<open>
  JavaScript truthiness of a value of type \<^verbatim>\<open>number | null\<close>: \<^verbatim>\<open>null\<close> and \<^verbatim>\<open>0\<close> are
  falsy, every other number is truthy.
\<close>

fun truthy :: "number option \<Rightarrow> bool" where
  "truthy None = False"
| "truthy (Some x) = (x \<noteq> 0)"

text \<open>
  The body of the \<^verbatim>\<open>useMemo\<close> callback of \<^verbatim>\<open>useCurrentIncome\<close>. The hook's own state
  \<^verbatim>\<open>currentTime\<close> (the last sample of \<^verbatim>\<open>Date.now()\<close>) is the third argument.
  \<^verbatim>\<open>
  if (!since) return 0;
  const timeElapsed = currentTime - since;
  const incomePerMs = annualIncome / (365 * 24 * 60 * 60 * 1000);
  return timeElapsed * incomePerMs;
  \<close>
\<close>

definition useCurrentIncome :: "number \<Rightarrow> number option \<Rightarrow> number \<Rightarrow> number" where
  "useCurrentIncome annualIncome since currentTime =
     (if \<not> truthy since then 0
      else
        let timeElapsed = currentTime - the since;
            incomePerMs = annualIncome / (365 * 24 * 60 * 60 * 1000)
        in timeElapsed * incomePerMs)"

text \<open>The constant the specification calls \<^verbatim>\<open>MILLIS_PER_YEAR\<close>.\<close>

definition MILLIS_PER_YEAR :: number where
  "MILLIS_PER_YEAR = 365 * 24 * 60 * 60 * 1000"

subsection \<open>Currency formatting\<close>

text \<open>
  Both formatters build an \<^verbatim>\<open>Intl.NumberFormat("en-US", options)\<close> and call its
  \<^verbatim>\<open>format\<close>. The options object is modelled; the digits that the platform prints from
  it are not.
\<close>

record NumberFormatOptions =
  style :: string
  currency :: string
  minimumFractionDigits :: nat
  maximumFractionDigits :: nat

text \<open>
  \<^verbatim>\<open>RichPerson\<close>, used for every value of a comparison card:
  \<^verbatim>\<open>const decimals = amount < 1 ? 5 : amount < 100 ? 2 : 2;\<close>
\<close>

definition formatCurrency_decimals :: "number \<Rightarrow> nat" where
  "formatCurrency_decimals amount = (if amount < 1 then 5 else if amount < 100 then 2 else 2)"

definition formatCurrency :: "number \<Rightarrow> NumberFormatOptions" where
  "formatCurrency amount =
     (let decimals = formatCurrency_decimals amount
      in \<lparr>style = ''currency'', currency = ''USD'',
          minimumFractionDigits = decimals, maximumFractionDigits = decimals\<rparr>)"

text \<open>\<^verbatim>\<open>useFormatCurrency\<close>, used by \<^verbatim>\<open>Home\<close> for the primary ticker.\<close>

definition useFormatCurrency :: "number \<Rightarrow> NumberFormatOptions" where
  "useFormatCurrency amount =
     \<lparr>style = ''currency'', currency = ''USD'',
      minimumFractionDigits = 2, maximumFractionDigits = 2\<rparr>"

subsection \<open>Persisted timer state (\<^verbatim>\<open>useIncomeTracker\<close>)\<close>

text \<open>
  The three \<^verbatim>\<open>useLocalStorageState\<close> cells of \<^verbatim>\<open>useIncomeTracker\<close>, with their declared
  types \<^verbatim>\<open>number\<close>, \<^verbatim>\<open>boolean\<close> and \<^verbatim>\<open>number | null\<close>.
\<close>

record TimerState =
  income :: number
  isRunning :: bool
  startTime :: "number option"

text \<open>The defaults \<^verbatim>\<open>{income: 0, isRunning: false, startTime: null}\<close>.\<close>

definition initialState :: TimerState where
  "initialState = \<lparr>income = 0, isRunning = False, startTime = None\<rparr>"

text \<open>
  The event handlers. \<^verbatim>\<open>handleStart\<close> reads the clock; the value of \<^verbatim>\<open>Date.now()\<close> is its
  first argument.
  \<^verbatim>\<open>
  const handleStart = () => { setIsRunning(!isRunning); setStartTime(Date.now()); };
  const handleReset = () => { setIsRunning(false); setStartTime(null); setIncome(0); };
  \<close>
  \<^verbatim>\<open>setIncome\<close> is the setter of the income cell, called by the input's \<^verbatim>\<open>onChange\<close>.
\<close>

definition handleStart :: "number \<Rightarrow> TimerState \<Rightarrow> TimerState" where
  "handleStart now s = s\<lparr>isRunning := \<not> isRunning s, startTime := Some now\<rparr>"

definition handleReset :: "TimerState \<Rightarrow> TimerState" where
  "handleReset s = s\<lparr>isRunning := False, startTime := None, income := 0\<rparr>"

definition setIncome :: "number \<Rightarrow> TimerState \<Rightarrow> TimerState" where
  "setIncome v s = s\<lparr>income := v\<rparr>"

text \<open>
  The effect of \<^verbatim>\<open>useIncomeTracker\<close>:
  \<^verbatim>\<open>
  useEffect(() => {
    if (income > 0 && startTime) { setIsRunning(true); }
  }, [income, startTime, setIsRunning]);
  \<close>
\<close>

definition autoRunEffect :: "TimerState \<Rightarrow> TimerState" where
  "autoRunEffect s =
     (if income s > 0 \<and> truthy (startTime s) then s\<lparr>isRunning := True\<rparr> else s)"

text \<open>
  React runs an effect after a render when one of its dependencies differs from the
  previous render. \<^verbatim>\<open>setIsRunning\<close> is a \<^verbatim>\<open>useState\<close> setter and never changes, so the
  effect runs when \<^verbatim>\<open>income\<close> or \<^verbatim>\<open>startTime\<close> has changed. \<open>prev\<close> is the state of the
  previous render, \<open>next\<close> the state the handler has set. The state change the effect
  makes leaves both dependencies as they are, so the effect does not run again.
\<close>

definition afterRender :: "TimerState \<Rightarrow> TimerState \<Rightarrow> TimerState" where
  "afterRender prev next =
     (if income next \<noteq> income prev \<or> startTime next \<noteq> startTime prev
      then autoRunEffect next else next)"

text \<open>After the first render every effect runs.\<close>

definition afterMount :: "TimerState \<Rightarrow> TimerState" where
  "afterMount s = autoRunEffect s"

text \<open>
  The operations as a user of the hook observes them: the handler, then the render and
  its effects. \<open>Start now\<close> is a call of \<^verbatim>\<open>handleStart\<close> at clock value \<open>now\<close>. In a
  sequence of operations each handler is the one of the latest render, so it reads the
  state its predecessor has left.
\<close>

datatype action = Start number | Reset | SetIncome number

fun handler :: "action \<Rightarrow> TimerState \<Rightarrow> TimerState" where
  "handler (Start now) s = handleStart now s"
| "handler Reset s = handleReset s"
| "handler (SetIncome v) s = setIncome v s"

definition dispatch :: "action \<Rightarrow> TimerState \<Rightarrow> TimerState" where
  "dispatch a s = afterRender s (handler a s)"

fun run :: "TimerState \<Rightarrow> action list \<Rightarrow> TimerState" where
  "run s [] = s"
| "run s (a # as) = run (dispatch a s) as"

text \<open>The invariant of the data model: a running timer has a start time.\<close>

definition running_has_start :: "TimerState \<Rightarrow> bool" where
  "running_has_start s = (isRunning s \<longrightarrow> startTime s \<noteq> None)"

subsection \<open>Initialisation from the persisted state\<close>

text \<open>
  \<^verbatim>\<open>window.localStorage\<close>: \<^verbatim>\<open>getItem\<close> answers \<^verbatim>\<open>null\<close> for a key that has no entry.
\<close>

type_synonym Storage = "string \<rightharpoonup> string"

definition getItem :: "Storage \<Rightarrow> string \<Rightarrow> string option" where
  "getItem storage key = storage key"

text \<open>
  What is read from the storage is not checked against the declared types, so the values
  of the initialisation are dynamically typed. The model has the values that
  \<^verbatim>\<open>JSON.stringify\<close> writes for the three cells, and \<^verbatim>\<open>NaN\<close>, the number of an invalid
  date.
\<close>

datatype jsvalue = JNull | JBool bool | JNum number | JNaN

text \<open>
  \<^verbatim>\<open>SyntaxError\<close> is the exception of \<^verbatim>\<open>JSON.parse\<close>. \<open>NotModelled\<close> is no exception of
  the program: the model of \<^verbatim>\<open>JSON.parse\<close> below answers it for a text on which it does
  not say what \<^verbatim>\<open>JSON.parse\<close> does.
\<close>

datatype exn = SyntaxError | NotModelled

text \<open>Truthiness of \<^verbatim>\<open>string | null\<close> (the empty string is falsy) and of a value.\<close>

fun truthy_text :: "string option \<Rightarrow> bool" where
  "truthy_text None = False"
| "truthy_text (Some txt) = (txt \<noteq> [])"

fun truthy_value :: "jsvalue \<Rightarrow> bool" where
  "truthy_value JNull = False"
| "truthy_value (JBool b) = b"
| "truthy_value (JNum x) = (x \<noteq> 0)"
| "truthy_value JNaN = False"

text \<open>The operator \<^verbatim>\<open>a || b\<close>.\<close>

definition or_else :: "jsvalue \<Rightarrow> jsvalue \<Rightarrow> jsvalue" where
  "or_else a b = (if truthy_value a then a else b)"

text \<open>
  A \<^verbatim>\<open>Date\<close> object is its time value, \<open>None\<close> for an invalid date. \<^verbatim>\<open>new Date(value)\<close>
  of a value that is no string is \<^verbatim>\<open>TimeClip(ToNumber(value))\<close>; \<^verbatim>\<open>Number(date)\<close> is the
  time value.
\<close>

datatype Date = Date "number option"

fun ToNumber :: "jsvalue \<Rightarrow> number option" where
  "ToNumber JNull = Some 0"
| "ToNumber (JBool b) = Some (if b then 1 else 0)"
| "ToNumber (JNum x) = Some x"
| "ToNumber JNaN = None"

fun TimeClip :: "number option \<Rightarrow> number option" where
  "TimeClip None = None"
| "TimeClip (Some t) =
     (if \<bar>t\<bar> > 8640000000000000 then None
      else Some (if t < 0 then of_int \<lceil>t\<rceil> else of_int \<lfloor>t\<rfloor>))"

definition newDate :: "jsvalue \<Rightarrow> Date" where
  "newDate v = Date (TimeClip (ToNumber v))"

fun Number_of_Date :: "Date \<Rightarrow> jsvalue" where
  "Number_of_Date (Date None) = JNaN"
| "Number_of_Date (Date (Some t)) = JNum t"

text \<open>
  The conditional \<^verbatim>\<open>stored ? JSON.parse(stored) : dflt\<close> of \<^verbatim>\<open>clientLoader\<close> and of
  \<^verbatim>\<open>useLocalStorageState\<close>. \<^verbatim>\<open>JSON.parse\<close> belongs to the platform; it is the parameter
  \<open>parse\<close>, and a thrown exception is the result \<open>Inl\<close>.
\<close>

definition parse_or :: "(string \<Rightarrow> exn + jsvalue) \<Rightarrow> string option \<Rightarrow> jsvalue \<Rightarrow> exn + jsvalue" where
  "parse_or parse stored dflt = (if truthy_text stored then parse (the stored) else Inr dflt)"

text \<open>
  \<^verbatim>\<open>
  export async function clientLoader() {
    const income = window.localStorage.getItem("income");
    const startTime = window.localStorage.getItem("startTime");
    const isRunning = window.localStorage.getItem("isRunning");
    return {
      income: income ? JSON.parse(income) : 0,
      startTime: startTime ? new Date(JSON.parse(startTime)) : null,
      isRunning: isRunning ? JSON.parse(isRunning) : false,
    };
  }
  \<close>
  The fields carry the names \<^verbatim>\<open>Home\<close> gives them.
\<close>

record LoaderData =
  storedIncome :: jsvalue
  storedStartTime :: "Date option"
  storedIsRunning :: jsvalue

definition clientLoader :: "(string \<Rightarrow> exn + jsvalue) \<Rightarrow> Storage \<Rightarrow> exn + LoaderData" where
  "clientLoader parse storage =
     (let income = getItem storage ''income'';
          startTime = getItem storage ''startTime'';
          isRunning = getItem storage ''isRunning''
      in case parse_or parse income (JNum 0) of
           Inl e \<Rightarrow> Inl e
         | Inr i \<Rightarrow>
            (case (if truthy_text startTime
                   then (case parse (the startTime) of
                           Inl e \<Rightarrow> Inl e | Inr v \<Rightarrow> Inr (Some (newDate v)))
                   else Inr None) of
               Inl e \<Rightarrow> Inl e
             | Inr t \<Rightarrow>
                (case parse_or parse isRunning (JBool False) of
                   Inl e \<Rightarrow> Inl e
                 | Inr r \<Rightarrow>
                    Inr \<lparr>storedIncome = i, storedStartTime = t, storedIsRunning = r\<rparr>)))"

text \<open>
  The initial state of a \<^verbatim>\<open>useLocalStorageState\<close> cell:
  \<^verbatim>\<open>
  const storedValue = window.localStorage.getItem(key);
  return storedValue ? JSON.parse(storedValue) : initialValue;
  \<close>
  The hook's effect writes the cell back with \<^verbatim>\<open>setItem\<close>; it changes no cell and is
  left out.
\<close>

definition useLocalStorageState :: "(string \<Rightarrow> exn + jsvalue) \<Rightarrow> Storage \<Rightarrow> string \<Rightarrow> jsvalue \<Rightarrow> exn + jsvalue" where
  "useLocalStorageState parse storage key initialValue =
     (let storedValue = getItem storage key in parse_or parse storedValue initialValue)"

text \<open>
  The first render of \<^verbatim>\<open>useIncomeTracker\<close>: the cells \<^verbatim>\<open>income\<close>, \<^verbatim>\<open>isRunning\<close> and
  \<^verbatim>\<open>startTime\<close>, in this order, with the initial values \<^verbatim>\<open>initialIncome || 0\<close>,
  \<^verbatim>\<open>initialIsRunning || false\<close> and
  \<^verbatim>\<open>initialStartTime ? Number(initialStartTime) : null\<close> (an object is truthy).
\<close>

record Cells =
  incomeCell :: jsvalue
  isRunningCell :: jsvalue
  startTimeCell :: jsvalue

definition useIncomeTracker :: "(string \<Rightarrow> exn + jsvalue) \<Rightarrow> Storage \<Rightarrow> jsvalue \<Rightarrow> Date option \<Rightarrow> jsvalue \<Rightarrow> exn + Cells" where
  "useIncomeTracker parse storage initialIncome initialStartTime initialIsRunning =
     (case useLocalStorageState parse storage ''income'' (or_else initialIncome (JNum 0)) of
        Inl e \<Rightarrow> Inl e
      | Inr i \<Rightarrow>
         (case useLocalStorageState parse storage ''isRunning''
                 (or_else initialIsRunning (JBool False)) of
            Inl e \<Rightarrow> Inl e
          | Inr r \<Rightarrow>
             (case useLocalStorageState parse storage ''startTime''
                     (case initialStartTime of None \<Rightarrow> JNull | Some d \<Rightarrow> Number_of_Date d) of
                Inl e \<Rightarrow> Inl e
              | Inr t \<Rightarrow> Inr \<lparr>incomeCell = i, isRunningCell = r, startTimeCell = t\<rparr>)))"

text \<open>\<^verbatim>\<open>Home\<close>: the loader's data is handed to \<^verbatim>\<open>useIncomeTracker\<close>.\<close>

definition Home :: "(string \<Rightarrow> exn + jsvalue) \<Rightarrow> Storage \<Rightarrow> exn + Cells" where
  "Home parse storage =
     (case clientLoader parse storage of
        Inl e \<Rightarrow> Inl e
      | Inr loaderData \<Rightarrow>
          useIncomeTracker parse storage
            (storedIncome loaderData) (storedStartTime loaderData) (storedIsRunning loaderData))"

text \<open>The cells read at their declared types, where their values have these types.\<close>

fun asTimerState :: "Cells \<Rightarrow> TimerState option" where
  "asTimerState \<lparr>incomeCell = JNum i, isRunningCell = JBool r, startTimeCell = JNull\<rparr> =
     Some \<lparr>income = i, isRunning = r, startTime = None\<rparr>"
| "asTimerState \<lparr>incomeCell = JNum i, isRunningCell = JBool r, startTimeCell = JNum t\<rparr> =
     Some \<lparr>income = i, isRunning = r, startTime = Some t\<rparr>"
| "asTimerState _ = None"

text \<open>
  A model of \<^verbatim>\<open>JSON.parse\<close> on part of its domain. The texts \<^verbatim>\<open>null\<close>, \<^verbatim>\<open>true\<close>,
  \<^verbatim>\<open>false\<close> and the integer literals of JSON (an optional minus sign, then \<^verbatim>\<open>0\<close> or
  digits that do not start with \<^verbatim>\<open>0\<close>) have their values. The empty text, and a text
  whose first character starts neither white space nor a JSON value, is a
  \<^verbatim>\<open>SyntaxError\<close>. Every other text (strings, arrays, objects, fractions, exponents,
  white space around a value) is \<open>NotModelled\<close>.
\<close>

definition is_digit :: "char \<Rightarrow> bool" where
  "is_digit c = (c \<in> set ''0123456789'')"

definition digit_value :: "char \<Rightarrow> int" where
  "digit_value c = of_char c - 48"

definition digits_value :: "string \<Rightarrow> int" where
  "digits_value ds = foldl (\<lambda>n c. 10 * n + digit_value c) 0 ds"

definition integer_literal :: "string \<Rightarrow> int option" where
  "integer_literal txt =
     (let neg = (txt \<noteq> [] \<and> hd txt = CHR ''-'');
          ds = (if neg then tl txt else txt)
      in if ds \<noteq> [] \<and> list_all is_digit ds \<and> (hd ds \<noteq> CHR ''0'' \<or> length ds = 1)
         then Some (if neg then - digits_value ds else digits_value ds)
         else None)"

definition starts_json :: "char \<Rightarrow> bool" where
  "starts_json c =
     (c \<in> set ''{[-0123456789tfn '' \<or> c = CHR 0x22 \<or> c = CHR 0x09 \<or> c = CHR 0x0A \<or> c = CHR 0x0D)"

definition JSON_parse :: "string \<Rightarrow> exn + jsvalue" where
  "JSON_parse txt =
     (if txt = ''null'' then Inr JNull
      else if txt = ''true'' then Inr (JBool True)
      else if txt = ''false'' then Inr (JBool False)
      else case integer_literal txt of
             Some i \<Rightarrow> Inr (JNum (of_int i))
           | None \<Rightarrow>
               (if txt = [] then Inl SyntaxError
                else if starts_json (hd txt) then Inl NotModelled
                else Inl SyntaxError))"

text \<open>The keys of the three cells.\<close>

definition keys :: "string set" where
  "keys = {''income'', ''isRunning'', ''startTime''}"

section \<open>The accrual calculator\<close>

text \<open>
  Claim C10. For every annual income and every sampled time, the accrual calculator returns
  0 when the start time is 0 (the epoch): the guard \<^verbatim>\<open>if (!since) return 0\<close> treats it
  like \<^verbatim>\<open>null\<close>, and the elapsed time is not computed.
\<close>

theorem epoch_zero_start_earns_nothing:
  "useCurrentIncome a (Some 0) n = 0"
  by (simp add: useCurrentIncome_def)

text \<open>
  Claim C2, as amended. The accrual calculator returns 0 when the start time is \<^verbatim>\<open>null\<close>
  or 0, and otherwise \<open>(n - s) * (a / MILLIS_PER_YEAR)\<close>, where \<open>MILLIS_PER_YEAR\<close> is
  \<open>365 * 24 * 60 * 60 * 1000 = 31536000000\<close>.
\<close>

theorem accrual_formula:
  "useCurrentIncome a s n =
     (case s of None \<Rightarrow> 0 | Some t \<Rightarrow> if t = 0 then 0 else (n - t) * (a / MILLIS_PER_YEAR)) \<and>
   MILLIS_PER_YEAR = 31536000000"
  by (cases s) (simp_all add: useCurrentIncome_def MILLIS_PER_YEAR_def)

text \<open>
  Claim C2 as it is written promises \<open>(n - s) * (a / MILLIS_PER_YEAR)\<close> for every start
  time that is not \<^verbatim>\<open>null\<close>. At an annual income of 31536000000, start time 0 and sample
  1000 that is 1000, and the calculator returns 0.
\<close>

theorem accrual_formula_fails_at_epoch_zero:
  "useCurrentIncome 31536000000 (Some 0) 1000 = 0 \<and>
   useCurrentIncome 31536000000 (Some 0) 1000 \<noteq> (1000 - 0) * (31536000000 / MILLIS_PER_YEAR)"
  by (simp add: useCurrentIncome_def MILLIS_PER_YEAR_def)

text \<open>
  Claim C7. For a fixed annual income \<open>a \<ge> 0\<close> and a fixed start time \<open>t\<close>, the earned
  amount does not decrease when the sample moves from \<open>n1\<close> to a later \<open>n2\<close>, both at or
  after \<open>t\<close>. The same holds for the start time \<^verbatim>\<open>null\<close>.
\<close>

theorem earned_monotone:
  assumes "0 \<le> a" and "t \<le> n1" and "n1 \<le> n2"
  shows "useCurrentIncome a (Some t) n1 \<le> useCurrentIncome a (Some t) n2 \<and>
         useCurrentIncome a None n1 \<le> useCurrentIncome a None n2"
proof -
  have rate: "0 \<le> a / (365 * 24 * 60 * 60 * 1000)"
    using assms(1) by simp
  have "(n1 - t) * (a / (365 * 24 * 60 * 60 * 1000)) \<le> (n2 - t) * (a / (365 * 24 * 60 * 60 * 1000))"
    using assms(3) rate by (intro mult_right_mono) simp_all
  then show ?thesis
    by (simp add: useCurrentIncome_def)
qed

text \<open>
  An income of 365000 a year, started at 1000: one day later 1000 is earned, two days
  later 2000.
\<close>

theorem earned_monotone_witness:
  "(0::real) \<le> 365000 \<and> (1000::real) \<le> 86401000 \<and> (86401000::real) \<le> 172801000 \<and>
   useCurrentIncome 365000 (Some 1000) 86401000 \<le> useCurrentIncome 365000 (Some 1000) 172801000 \<and>
   useCurrentIncome 365000 (Some 1000) 86401000 = 1000 \<and>
   useCurrentIncome 365000 (Some 1000) 172801000 = 2000"
  using earned_monotone [of 365000 1000 86401000 172801000]
  by (simp add: useCurrentIncome_def)

section \<open>Currency formatting\<close>

text \<open>
  Claim C9, as amended. The formatter of the comparison cards selects 5 decimal places
  for an amount below 1 and 2 otherwise; the formatter of the primary ticker selects 2
  decimal places for every amount.
\<close>

theorem currency_decimals:
  "minimumFractionDigits (formatCurrency amount) = (if amount < 1 then 5 else 2) \<and>
   maximumFractionDigits (formatCurrency amount) = (if amount < 1 then 5 else 2) \<and>
   minimumFractionDigits (useFormatCurrency amount) = 2 \<and>
   maximumFractionDigits (useFormatCurrency amount) = 2"
  by (simp add: formatCurrency_def formatCurrency_decimals_def useFormatCurrency_def)

text \<open>
  Claim C9 as it is written asks for 5 decimal places on the primary ticker as well. For
  the amount one half the primary ticker is formatted with 2.
\<close>

theorem primary_ticker_two_decimals_below_one:
  "(1 / 2 :: number) < 1 \<and>
   minimumFractionDigits (useFormatCurrency (1 / 2)) = 2 \<and>
   maximumFractionDigits (useFormatCurrency (1 / 2)) \<noteq> 5"
  by (simp add: useFormatCurrency_def)

section \<open>The timer state\<close>

text \<open>
  Claim C3. From every state, \<^verbatim>\<open>reset()\<close> yields exactly the state
  \<^verbatim>\<open>{income: 0, isRunning: false, startTime: null}\<close>: the handler sets it, and the effect
  that runs after the render leaves it.
\<close>

theorem reset_yields_defaults:
  "handleReset s = \<lparr>income = 0, isRunning = False, startTime = None\<rparr> \<and>
   dispatch Reset s = \<lparr>income = 0, isRunning = False, startTime = None\<rparr>"
  by (cases s) (simp add: handleReset_def dispatch_def afterRender_def autoRunEffect_def)

text \<open>
  What an operation makes of a state, the effect included. These equations are used by
  the theorems below.
\<close>

lemma dispatch_Start:
  "dispatch (Start now) s =
     \<lparr>income = income s,
      isRunning = (\<not> isRunning s \<or> (0 < income s \<and> now \<noteq> 0 \<and> startTime s \<noteq> Some now)),
      startTime = Some now\<rparr>"
  by (cases s) (auto simp add: dispatch_def afterRender_def autoRunEffect_def handleStart_def)

lemma dispatch_SetIncome:
  "dispatch (SetIncome v) s =
     \<lparr>income = v,
      isRunning = (isRunning s \<or> (v \<noteq> income s \<and> 0 < v \<and> truthy (startTime s))),
      startTime = startTime s\<rparr>"
  by (cases s) (auto simp add: dispatch_def afterRender_def autoRunEffect_def setIncome_def)

lemma dispatch_Reset:
  "dispatch Reset s = \<lparr>income = 0, isRunning = False, startTime = None\<rparr>"
  by (cases s) (simp add: handleReset_def dispatch_def afterRender_def autoRunEffect_def)

lemma truthy_not_None: "truthy x \<Longrightarrow> x \<noteq> None"
  by (cases x) simp_all

lemma dispatch_preserves: "running_has_start s \<Longrightarrow> running_has_start (dispatch a s)"
  by (cases a)
     (auto simp add: running_has_start_def dispatch_Start dispatch_SetIncome dispatch_Reset
           dest: truthy_not_None)

lemma run_preserves: "running_has_start s \<Longrightarrow> running_has_start (run s as)"
  by (induction as arbitrary: s) (simp_all add: dispatch_preserves)

text \<open>
  Claim C1, as amended. \<^verbatim>\<open>start()\<close> sets \<^verbatim>\<open>startTime\<close> to the current time, leaves
  \<^verbatim>\<open>income\<close>, and negates \<^verbatim>\<open>isRunning\<close>; the effect that follows sets \<^verbatim>\<open>isRunning\<close> to
  true when the income is positive and the current time is not 0 and differs from the
  previous \<^verbatim>\<open>startTime\<close>. So \<^verbatim>\<open>start()\<close> on a stopped timer always leaves it running, and
  with a positive income two calls in a row, the second at a time that is not 0 and not
  the time of the first, leave \<^verbatim>\<open>isRunning\<close> true and \<^verbatim>\<open>startTime\<close> at the time of the
  second call.
\<close>

theorem start_toggles_then_auto_runs:
  "startTime (dispatch (Start now) s) = Some now \<and>
   income (dispatch (Start now) s) = income s \<and>
   isRunning (handleStart now s) = (\<not> isRunning s) \<and>
   isRunning (dispatch (Start now) s) =
     (\<not> isRunning s \<or> (0 < income s \<and> now \<noteq> 0 \<and> startTime s \<noteq> Some now)) \<and>
   (0 < income s \<and> t2 \<noteq> 0 \<and> t1 \<noteq> t2 \<longrightarrow>
      isRunning (run s [Start t1, Start t2]) \<and> startTime (run s [Start t1, Start t2]) = Some t2)"
  by (simp add: dispatch_Start handleStart_def)

text \<open>An income of 5, started at 1000 and again at 2000.\<close>

theorem start_toggles_then_auto_runs_witness:
  "(0::real) < income \<lparr>income = 5, isRunning = False, startTime = None\<rparr> \<and>
   (2000::real) \<noteq> 0 \<and> (1000::real) \<noteq> 2000 \<and>
   isRunning (run \<lparr>income = 5, isRunning = False, startTime = None\<rparr> [Start 1000, Start 2000]) \<and>
   startTime (run \<lparr>income = 5, isRunning = False, startTime = None\<rparr> [Start 1000, Start 2000]) = Some 2000 \<and>
   isRunning (dispatch (Start 1000) \<lparr>income = 5, isRunning = False, startTime = None\<rparr>)"
  using start_toggles_then_auto_runs
          [of 1000 "\<lparr>income = 5, isRunning = False, startTime = None\<rparr>" 2000 1000]
  by simp

text \<open>
  Claim C1 as it is written has \<^verbatim>\<open>isRunning\<close> true after every \<^verbatim>\<open>start()\<close>. From the
  defaults, two calls in a row leave it false (the income is 0, the effect does not
  fire). With an income of 5 the second call leaves it false when it comes at the time of
  the first (no dependency of the effect has changed) or at time 0 (a falsy
  \<^verbatim>\<open>startTime\<close>).
\<close>

theorem start_can_stop_the_timer:
  "\<not> isRunning (run initialState [Start 1000, Start 2000]) \<and>
   \<not> isRunning (run initialState [SetIncome 5, Start 1000, Start 1000]) \<and>
   \<not> isRunning (run initialState [SetIncome 5, Start 1000, Start 0])"
  by (simp add: initialState_def dispatch_Start dispatch_SetIncome)

text \<open>
  Claim C5. The invariant that a running timer has a start time holds in the default
  state, is preserved by the handlers of start, reset and setIncome, by the effect and
  by every operation with its effect, and so holds in every state reached from the
  defaults.
\<close>

theorem running_has_start_invariant:
  "running_has_start initialState \<and>
   (running_has_start s \<longrightarrow>
      running_has_start (handleStart now s) \<and> running_has_start (handleReset s) \<and>
      running_has_start (setIncome v s) \<and> running_has_start (autoRunEffect s) \<and>
      running_has_start (dispatch a s)) \<and>
   running_has_start (run initialState as)"
proof -
  have init: "running_has_start initialState"
    by (simp add: running_has_start_def initialState_def)
  have handlers: "running_has_start (handleStart now s)" "running_has_start (handleReset s)"
    by (simp_all add: running_has_start_def handleStart_def handleReset_def)
  have rest: "running_has_start (setIncome v s)" "running_has_start (autoRunEffect s)"
    if "running_has_start s"
    using that
    by (auto simp add: running_has_start_def setIncome_def autoRunEffect_def dest: truthy_not_None)
  show ?thesis
    using init handlers rest dispatch_preserves run_preserves by blast
qed

text \<open>
  A running state with a start time: the defaults after \<^verbatim>\<open>setIncome(5)\<close> and a start at
  1000; it stays so under \<^verbatim>\<open>setIncome(7)\<close>.
\<close>

theorem running_has_start_invariant_witness:
  "isRunning (run initialState [SetIncome 5, Start 1000]) \<and>
   startTime (run initialState [SetIncome 5, Start 1000]) = Some 1000 \<and>
   running_has_start (run initialState [SetIncome 5, Start 1000]) \<and>
   running_has_start \<lparr>income = 5, isRunning = True, startTime = Some 1000\<rparr> \<and>
   running_has_start (dispatch (SetIncome 7) \<lparr>income = 5, isRunning = True, startTime = Some 1000\<rparr>) \<and>
   isRunning (dispatch (SetIncome 7) \<lparr>income = 5, isRunning = True, startTime = Some 1000\<rparr>)"
  using running_has_start_invariant
          [of "\<lparr>income = 5, isRunning = True, startTime = Some 1000\<rparr>" 0 0 "SetIncome 7"
              "[SetIncome 5, Start 1000]"]
  by (simp add: running_has_start_def initialState_def dispatch_Start dispatch_SetIncome)

text \<open>
  Claim C6, as amended. When the effect runs with a positive income and a start time that
  is set and not 0, \<^verbatim>\<open>isRunning\<close> becomes true; it runs after a \<^verbatim>\<open>setIncome(value)\<close> that
  changes the stored income. So after such a \<^verbatim>\<open>setIncome(value)\<close> with \<open>value > 0\<close> and a
  start time that is set and not 0, the stored income is \<open>value\<close> and \<^verbatim>\<open>isRunning\<close> is true.
\<close>

theorem setIncome_auto_run:
  "(0 < income s \<and> startTime s = Some t \<and> t \<noteq> 0 \<longrightarrow> isRunning (autoRunEffect s)) \<and>
   (v \<noteq> income s \<and> 0 < v \<and> startTime s = Some t \<and> t \<noteq> 0 \<longrightarrow>
      isRunning (dispatch (SetIncome v) s) \<and> income (dispatch (SetIncome v) s) = v)"
  by (simp add: dispatch_SetIncome autoRunEffect_def)

text \<open>A stopped timer with the start time 1000 and no income: \<^verbatim>\<open>setIncome(5)\<close> starts it.\<close>

theorem setIncome_auto_run_witness:
  "(5::real) \<noteq> income \<lparr>income = 0, isRunning = False, startTime = Some 1000\<rparr> \<and> (0::real) < 5 \<and>
   startTime \<lparr>income = 0, isRunning = False, startTime = Some 1000\<rparr> = Some 1000 \<and> (1000::real) \<noteq> 0 \<and>
   isRunning (dispatch (SetIncome 5) \<lparr>income = 0, isRunning = False, startTime = Some 1000\<rparr>) \<and>
   income (dispatch (SetIncome 5) \<lparr>income = 0, isRunning = False, startTime = Some 1000\<rparr>) = 5 \<and>
   isRunning (autoRunEffect \<lparr>income = 5, isRunning = False, startTime = Some 1000\<rparr>)"
  using setIncome_auto_run [of "\<lparr>income = 0, isRunning = False, startTime = Some 1000\<rparr>" 1000 5]
        setIncome_auto_run [of "\<lparr>income = 5, isRunning = False, startTime = Some 1000\<rparr>" 1000 5]
  by simp

text \<open>
  Claim C6 as it is written asks only for a start time that is not \<^verbatim>\<open>null\<close>. With the
  start time 0, \<^verbatim>\<open>setIncome(5)\<close> stores a positive income and the timer stays stopped.
  It also stays stopped when \<^verbatim>\<open>setIncome(5)\<close> meets the stored income 5 on a timer that a
  second start at the same time has stopped: nothing changes, and the effect does not run.
\<close>

theorem setIncome_without_auto_run:
  "0 < income (dispatch (SetIncome 5) \<lparr>income = 0, isRunning = False, startTime = Some 0\<rparr>) \<and>
   startTime (dispatch (SetIncome 5) \<lparr>income = 0, isRunning = False, startTime = Some 0\<rparr>) \<noteq> None \<and>
   \<not> isRunning (dispatch (SetIncome 5) \<lparr>income = 0, isRunning = False, startTime = Some 0\<rparr>) \<and>
   0 < income (run initialState [SetIncome 5, Start 1000, Start 1000, SetIncome 5]) \<and>
   startTime (run initialState [SetIncome 5, Start 1000, Start 1000, SetIncome 5]) = Some 1000 \<and>
   \<not> isRunning (run initialState [SetIncome 5, Start 1000, Start 1000, SetIncome 5])"
  by (simp add: initialState_def dispatch_Start dispatch_SetIncome)

text \<open>
  Claim C8, as amended. No call of \<^verbatim>\<open>setIncome\<close>, the effect included, modifies
  \<^verbatim>\<open>startTime\<close>, and in a running state the call changes the income field and nothing
  else. On a stopped timer the call changes the income field and, when the value differs
  from the stored income, is positive, and the start time is set and not 0, it also
  sets \<^verbatim>\<open>isRunning\<close> to true; in every other case it changes the income field only.
\<close>

theorem setIncome_frame:
  "dispatch (SetIncome v) s =
     s\<lparr>income := v,
       isRunning := (isRunning s \<or> (v \<noteq> income s \<and> 0 < v \<and> truthy (startTime s)))\<rparr> \<and>
   startTime (dispatch (SetIncome v) s) = startTime s \<and>
   (isRunning s \<longrightarrow> dispatch (SetIncome v) s = s\<lparr>income := v\<rparr>) \<and>
   (\<not> (v \<noteq> income s \<and> 0 < v \<and> truthy (startTime s)) \<longrightarrow>
      dispatch (SetIncome v) s = s\<lparr>income := v\<rparr>)"
  by (cases s) (auto simp add: dispatch_SetIncome)

text \<open>
  Under \<^verbatim>\<open>setIncome(7)\<close>: a timer running since 1000 with the income 5 keeps running since
  1000; a stopped timer with the start time 1000 and no income is started; the defaults
  and a stopped timer that already has the income 7 stay stopped.
\<close>

theorem setIncome_frame_witness:
  "isRunning \<lparr>income = 5, isRunning = True, startTime = Some 1000\<rparr> \<and>
   dispatch (SetIncome 7) \<lparr>income = 5, isRunning = True, startTime = Some 1000\<rparr> =
     \<lparr>income = 7, isRunning = True, startTime = Some 1000\<rparr> \<and>
   dispatch (SetIncome 7) \<lparr>income = 0, isRunning = False, startTime = Some 1000\<rparr> =
     \<lparr>income = 7, isRunning = True, startTime = Some 1000\<rparr> \<and>
   \<not> truthy (startTime \<lparr>income = 0, isRunning = False, startTime = None\<rparr>) \<and>
   dispatch (SetIncome 7) \<lparr>income = 0, isRunning = False, startTime = None\<rparr> =
     \<lparr>income = 7, isRunning = False, startTime = None\<rparr> \<and>
   dispatch (SetIncome 7) \<lparr>income = 7, isRunning = False, startTime = Some 1000\<rparr> =
     \<lparr>income = 7, isRunning = False, startTime = Some 1000\<rparr>"
  using setIncome_frame [of 7 "\<lparr>income = 5, isRunning = True, startTime = Some 1000\<rparr>"]
        setIncome_frame [of 7 "\<lparr>income = 0, isRunning = False, startTime = Some 1000\<rparr>"]
        setIncome_frame [of 7 "\<lparr>income = 0, isRunning = False, startTime = None\<rparr>"]
        setIncome_frame [of 7 "\<lparr>income = 7, isRunning = False, startTime = Some 1000\<rparr>"]
  by simp

text \<open>
  Claim C8 as it is written has \<^verbatim>\<open>setIncome\<close> change the income field only. Two starts
  from the defaults leave a stopped timer with the start time 2000 and no income;
  \<^verbatim>\<open>setIncome(5)\<close> then sets \<^verbatim>\<open>isRunning\<close> to true as well. The same happens on a stopped
  timer with the start time 1000.
\<close>

theorem setIncome_can_start_the_timer:
  "run initialState [Start 1000, Start 2000] =
     \<lparr>income = 0, isRunning = False, startTime = Some 2000\<rparr> \<and>
   run initialState [Start 1000, Start 2000, SetIncome 5] =
     \<lparr>income = 5, isRunning = True, startTime = Some 2000\<rparr> \<and>
   dispatch (SetIncome 5) \<lparr>income = 0, isRunning = False, startTime = Some 1000\<rparr> =
     \<lparr>income = 5, isRunning = True, startTime = Some 1000\<rparr> \<and>
   dispatch (SetIncome 5) \<lparr>income = 0, isRunning = False, startTime = Some 1000\<rparr> \<noteq>
     \<lparr>income = 0, isRunning = False, startTime = Some 1000\<rparr>\<lparr>income := 5\<rparr>"
  by (simp add: initialState_def dispatch_Start dispatch_SetIncome)

section \<open>Initialisation\<close>

lemma parse_or_falsy:
  "stored = None \<or> stored = Some [] \<Longrightarrow> parse_or parse stored dflt = Inr dflt"
  by (auto simp add: parse_or_def)

lemma parse_or_text:
  "txt \<noteq> [] \<Longrightarrow> parse_or parse (Some txt) dflt = parse txt"
  by (simp add: parse_or_def)

lemma clientLoader_absent:
  assumes "storage ''income'' = None \<or> storage ''income'' = Some []"
    and "storage ''isRunning'' = None \<or> storage ''isRunning'' = Some []"
    and "storage ''startTime'' = None \<or> storage ''startTime'' = Some []"
  shows "clientLoader parse storage =
           Inr \<lparr>storedIncome = JNum 0, storedStartTime = None, storedIsRunning = JBool False\<rparr>"
proof -
  have "\<not> truthy_text (storage ''startTime'')"
    using assms(3) by auto
  then show ?thesis
    using assms(1,2) by (simp add: clientLoader_def getItem_def parse_or_falsy)
qed

lemma useIncomeTracker_absent:
  assumes "storage ''income'' = None \<or> storage ''income'' = Some []"
    and "storage ''isRunning'' = None \<or> storage ''isRunning'' = Some []"
    and "storage ''startTime'' = None \<or> storage ''startTime'' = Some []"
  shows "useIncomeTracker parse storage (JNum 0) None (JBool False) =
           Inr \<lparr>incomeCell = JNum 0, isRunningCell = JBool False, startTimeCell = JNull\<rparr>"
  using assms
  by (simp add: useIncomeTracker_def useLocalStorageState_def getItem_def parse_or_falsy or_else_def)

lemma Home_absent:
  assumes "\<forall>k\<in>keys. storage k = None \<or> storage k = Some []"
  shows "Home parse storage =
           Inr \<lparr>incomeCell = JNum 0, isRunningCell = JBool False, startTimeCell = JNull\<rparr>"
proof -
  have a: "storage ''income'' = None \<or> storage ''income'' = Some []"
    and b: "storage ''isRunning'' = None \<or> storage ''isRunning'' = Some []"
    and c: "storage ''startTime'' = None \<or> storage ''startTime'' = Some []"
    using assms by (simp_all add: keys_def)
  show ?thesis
    by (simp add: Home_def clientLoader_absent [OF a b c] useIncomeTracker_absent [OF a b c])
qed

lemma clientLoader_raises:
  assumes "k \<in> keys" and "storage k = Some txt" and "txt \<noteq> []" and "parse txt = Inl e"
  shows "\<exists>e'. clientLoader parse storage = Inl e'"
proof -
  consider "k = ''income''" | "k = ''isRunning''" | "k = ''startTime''"
    using assms(1) by (auto simp add: keys_def)
  then show ?thesis
  proof cases
    case 1
    then show ?thesis
      using assms(2-4) by (simp add: clientLoader_def getItem_def parse_or_text)
  next
    case 2
    then have "parse_or parse (storage ''isRunning'') (JBool False) = Inl e"
      using assms(2-4) by (simp add: parse_or_text)
    then show ?thesis
      by (auto simp add: clientLoader_def getItem_def Let_def split: sum.splits)
  next
    case 3
    then have "truthy_text (storage ''startTime'')" "parse (the (storage ''startTime'')) = Inl e"
      using assms(2-4) by simp_all
    then show ?thesis
      by (auto simp add: clientLoader_def getItem_def Let_def split: sum.splits)
  qed
qed

text \<open>
  The reload scenario of the specification: what was persisted is the state after the
  reload.
\<close>

lemma reload_resumes:
  "Home JSON_parse
     (Map.empty(''income'' \<mapsto> ''500000'', ''isRunning'' \<mapsto> ''true'',
                ''startTime'' \<mapsto> ''1700000000000'')) =
   Inr \<lparr>incomeCell = JNum 500000, isRunningCell = JBool True, startTimeCell = JNum 1700000000000\<rparr>"
  by (simp add: Home_def clientLoader_def useIncomeTracker_def useLocalStorageState_def
        getItem_def parse_or_def JSON_parse_def integer_literal_def is_digit_def
        digits_value_def digit_value_def Let_def)

text \<open>
  Claim C4, as amended. When each of the three persisted entries is absent or the empty
  string, initialisation raises nothing and the state is the defaults
  \<^verbatim>\<open>{income: 0, isRunning: false, startTime: null}\<close>, which the effect of the first render
  leaves. When an entry is a text that is not empty and that \<^verbatim>\<open>JSON.parse\<close> rejects,
  initialisation raises an exception and yields no state. Both hold for every behaviour
  \<open>parse\<close> of \<^verbatim>\<open>JSON.parse\<close>.
\<close>

theorem initialisation_absent_or_malformed:
  "((\<forall>k\<in>keys. storage k = None \<or> storage k = Some []) \<longrightarrow>
      Home parse storage =
        Inr \<lparr>incomeCell = JNum 0, isRunningCell = JBool False, startTimeCell = JNull\<rparr> \<and>
      asTimerState \<lparr>incomeCell = JNum 0, isRunningCell = JBool False, startTimeCell = JNull\<rparr> =
        Some initialState \<and>
      afterMount initialState = initialState) \<and>
   (k \<in> keys \<and> storage k = Some txt \<and> txt \<noteq> [] \<and> parse txt = Inl e \<longrightarrow>
      (\<exists>e'. Home parse storage = Inl e'))"
proof -
  have "\<exists>e'. Home parse storage = Inl e'"
    if h: "k \<in> keys" "storage k = Some txt" "txt \<noteq> []" "parse txt = Inl e"
  proof -
    obtain e' where "clientLoader parse storage = Inl e'"
      using clientLoader_raises [of "k" "storage" "txt" "parse" "e"] h by blast
    then show ?thesis
      by (simp add: Home_def)
  qed
  moreover have "asTimerState \<lparr>incomeCell = JNum 0, isRunningCell = JBool False, startTimeCell = JNull\<rparr> =
        Some initialState"
    by (simp add: initialState_def)
  moreover have "afterMount initialState = initialState"
    by (simp add: afterMount_def autoRunEffect_def initialState_def)
  ultimately show ?thesis
    using Home_absent by blast
qed

text \<open>
  An empty storage gives the defaults; the entry \<^verbatim>\<open>yesterday\<close> under \<^verbatim>\<open>startTime\<close> is no JSON
  text, and initialisation raises.
\<close>

theorem initialisation_absent_or_malformed_witness:
  "(Map.empty :: Storage) ''income'' = None \<and> (Map.empty :: Storage) ''isRunning'' = None \<and>
   (Map.empty :: Storage) ''startTime'' = None \<and>
   Home JSON_parse Map.empty =
     Inr \<lparr>incomeCell = JNum 0, isRunningCell = JBool False, startTimeCell = JNull\<rparr> \<and>
   ''startTime'' \<in> keys \<and>
   (Map.empty(''startTime'' \<mapsto> ''yesterday'')) ''startTime'' = Some ''yesterday'' \<and>
   ''yesterday'' \<noteq> [] \<and> JSON_parse ''yesterday'' = Inl SyntaxError \<and>
   (\<exists>e'. Home JSON_parse (Map.empty(''startTime'' \<mapsto> ''yesterday'')) = Inl e')"
  using initialisation_absent_or_malformed [of Map.empty JSON_parse]
        initialisation_absent_or_malformed
          [of "Map.empty(''startTime'' \<mapsto> ''yesterday'')" JSON_parse "''startTime''"
              "''yesterday''" SyntaxError]
  by (simp add: keys_def JSON_parse_def integer_literal_def is_digit_def starts_json_def)

text \<open>
  Claim C4 as it is written promises the defaults and no error for a malformed entry.
  With the text \<^verbatim>\<open>abc\<close> under \<^verbatim>\<open>income\<close>, initialisation raises the \<^verbatim>\<open>SyntaxError\<close> of
  \<^verbatim>\<open>JSON.parse\<close>.
\<close>

theorem malformed_entry_raises:
  "Home JSON_parse (Map.empty(''income'' \<mapsto> ''abc'')) = Inl SyntaxError \<and>
   Home JSON_parse (Map.empty(''income'' \<mapsto> ''abc'')) \<noteq>
     Inr \<lparr>incomeCell = JNum 0, isRunningCell = JBool False, startTimeCell = JNull\<rparr>"
  by (simp add: Home_def clientLoader_def getItem_def parse_or_def JSON_parse_def
        integer_literal_def is_digit_def starts_json_def)

end
